theory Spec2Isabelle
  imports Complex_Main
begin

section \<open>Data model\<close>

text \<open>
  The two scripts \<^verbatim>\<open>gear_generator.py\<close> and \<^verbatim>\<open>bevel_gear_generator.py\<close> compute with
  Python floats. They are modelled here as mathematical reals: the formulas are the ones of
  the source, rounding is not modelled. \<^verbatim>\<open>math.sin\<close>, \<^verbatim>\<open>np.pi\<close> and
  \<^verbatim>\<open>math.radians\<close> are \<^term>\<open>sin\<close>, \<^term>\<open>pi\<close> and multiplication by
  \<open>pi / 180\<close>. Python integers (tooth counts, sample counts, section counts) are \<^typ>\<open>int\<close>.
\<close>

type_synonym point = "real \<times> real"

type_synonym point3 = "real \<times> real \<times> real"

text \<open>
  Both scripts do \<^verbatim>\<open>import gear\<close> from the submodule \<^verbatim>\<open>lib/gear-profile-generator\<close>,
  which is not part of the sources. The imported module is a parameter of every function
  below: \<open>generate teeth_count tooth_width pressure_angle backlash frame_count\<close> returns the
  exterior ring of the gear polygon and the pitch radius, or \<open>None\<close> when the library raises;
  \<open>deg2rad\<close> is its degree conversion.
\<close>

record gear_module =
  generate :: "int \<Rightarrow> real \<Rightarrow> real \<Rightarrow> real \<Rightarrow> int \<Rightarrow> (point list \<times> real) option"
  deg2rad :: "real \<Rightarrow> real"

datatype error = ZeroDivisionError | IndexError | GenerateError

text \<open>The dictionary appended to \<^verbatim>\<open>sections\<close> in \<^verbatim>\<open>_generate_sections\<close>.\<close>

record bevel_section =
  points :: "point list"
  z :: real
  scale :: real
  radius :: real

text \<open>The attributes of \<^verbatim>\<open>InvoluteGear\<close> (gear_generator.py).\<close>

record InvoluteGear =
  module :: real
  teeth_number :: int
  pressure_angle :: real
  clearance :: real
  backlash :: real
  profile_shift :: real
  tooth_width :: real
  gear_poly :: "point list"
  pitch_radius :: real

text \<open>The attributes of \<^verbatim>\<open>BevelGear\<close> (bevel_gear_generator.py).\<close>

record BevelGear =
  module :: real
  teeth_number :: int
  pressure_angle :: real
  cone_angle :: real
  face_width :: real
  clearance :: real
  backlash :: real
  profile_shift :: real
  frame_count :: int
  tooth_width :: real
  pitch_radius :: real
  sections :: "bevel_section list"

section \<open>Bevel gears: the section stack\<close>

definition radians :: "real \<Rightarrow> real" where
  "radians d = d * pi / 180"

text \<open>
  \<^verbatim>\<open>apex_distance = self.pitch_radius / math.sin(math.radians(self.cone_angle))\<close>:
  a float division, which raises \<^verbatim>\<open>ZeroDivisionError\<close> on a zero divisor. Over the
  reals the sine vanishes at every multiple of 180 degrees; in floating point it is exactly
  zero at cone angle 0 only.
\<close>

definition apex_distance :: "BevelGear \<Rightarrow> error + real" where
  "apex_distance self =
     (if sin (radians (cone_angle self)) = 0 then Inl ZeroDivisionError
      else Inr (pitch_radius self / sin (radians (cone_angle self))))"

text \<open>
  The body of \<^verbatim>\<open>for i in range(num_sections)\<close>, run over the remaining indices with the
  list \<^verbatim>\<open>sections\<close> built so far. Both divisions of the body raise on a zero divisor.
\<close>

fun sections_loop ::
  "gear_module \<Rightarrow> BevelGear \<Rightarrow> int \<Rightarrow> real \<Rightarrow> nat list \<Rightarrow> bevel_section list \<Rightarrow> error + bevel_section list"
where
  "sections_loop gear self num_sections apex [] acc = Inr acc"
| "sections_loop gear self num_sections apex (i # rest) acc =
     (if num_sections - 1 = 0 then Inl ZeroDivisionError
      else
        let t = real i / real_of_int (num_sections - 1);
            section_distance = apex - t * face_width self
        in
          if apex = 0 then Inl ZeroDivisionError
          else
            let scale' = section_distance / apex;
                effective_module = BevelGear.module self * scale';
                effective_radius = BevelGear.pitch_radius self * scale'
            in
              if scale' > 1 / 10 then
                (let tooth_width' = pi * effective_module in
                 case generate gear (BevelGear.teeth_number self) tooth_width'
                        (deg2rad gear (BevelGear.pressure_angle self))
                        (BevelGear.backlash self) (frame_count self) of
                   None \<Rightarrow> Inl GenerateError
                 | Some (gear_poly', _) \<Rightarrow>
                     sections_loop gear self num_sections apex rest
                       (acc @ [\<lparr>points = gear_poly', z = t * face_width self,
                                scale = scale', radius = effective_radius\<rparr>]))
              else sections_loop gear self num_sections apex rest acc)"

definition generate_sections :: "gear_module \<Rightarrow> BevelGear \<Rightarrow> int \<Rightarrow> error + bevel_section list" where
  "generate_sections gear self num_sections =
     (case apex_distance self of
        Inl e \<Rightarrow> Inl e
      | Inr apex \<Rightarrow> sections_loop gear self num_sections apex [0 ..< nat num_sections] [])"

text \<open>
  \<^verbatim>\<open>BevelGear.__init__\<close>: the attributes are stored, then
  \<^verbatim>\<open>self.sections = self._generate_sections()\<close> with the default \<^verbatim>\<open>num_sections=10\<close>.
\<close>

definition BevelGear_init ::
  "gear_module \<Rightarrow> real \<Rightarrow> int \<Rightarrow> real \<Rightarrow> real \<Rightarrow> real \<Rightarrow> real \<Rightarrow> real \<Rightarrow> real \<Rightarrow> int
     \<Rightarrow> error + BevelGear"
where
  "BevelGear_init gear module' teeth_number' pressure_angle' cone_angle' face_width'
       clearance' backlash' profile_shift' frame_count' =
     (let self = \<lparr>module = module', teeth_number = teeth_number',
                  pressure_angle = pressure_angle', cone_angle = cone_angle',
                  face_width = face_width', clearance = clearance', backlash = backlash',
                  profile_shift = profile_shift', frame_count = frame_count',
                  tooth_width = pi * module',
                  pitch_radius = (real_of_int teeth_number' * module') / 2,
                  sections = []\<rparr>
      in case generate_sections gear self 10 of
           Inl e \<Rightarrow> Inl e
         | Inr secs \<Rightarrow> Inr (self\<lparr>sections := secs\<rparr>))"

text \<open>
  The construction of the two mating gears, as \<^verbatim>\<open>main\<close> and \<^verbatim>\<open>export_bevel_gears\<close> both
  do it: \<^verbatim>\<open>profile_shift\<close> is left at its default 0 and the second gear gets
  \<^verbatim>\<open>cone_angle=90 - cone_angle\<close>. An exception in the first constructor leaves the second
  one unbuilt.
\<close>

definition bevel_gear_pair ::
  "gear_module \<Rightarrow> real \<Rightarrow> int \<Rightarrow> int \<Rightarrow> real \<Rightarrow> real \<Rightarrow> real \<Rightarrow> real \<Rightarrow> real \<Rightarrow> int
     \<Rightarrow> error + (BevelGear \<times> BevelGear)"
where
  "bevel_gear_pair gear module' teeth1 teeth2 pressure_angle' cone_angle' face_width'
       clearance' backlash' frame_count' =
     (case BevelGear_init gear module' teeth1 pressure_angle' cone_angle' face_width'
             clearance' backlash' 0 frame_count' of
        Inl e \<Rightarrow> Inl e
      | Inr gear1 \<Rightarrow>
          (case BevelGear_init gear module' teeth2 pressure_angle' (90 - cone_angle')
                  face_width' clearance' backlash' 0 frame_count' of
             Inl e \<Rightarrow> Inl e
           | Inr gear2 \<Rightarrow> Inr (gear1, gear2)))"

section \<open>Bevel gears: placement of the second gear\<close>






text \<open>
  \<^verbatim>\<open>export_bevel_gears\<close>, up to the transforms it applies to the second gear's solid. The
  CAD host is outside the sources: \<open>rhino_available\<close> is \<^verbatim>\<open>RHINO_AVAILABLE\<close> and \<open>brep2\<close>
  says whether \<^verbatim>\<open>create_rhino_bevel_gear(gear2, ...)\<close> gave a solid. Without the host the
  function returns before it builds anything; without the solid no transform is computed.
  The model ends with the two transforms: naming the objects and writing the file are the
  host's work.
\<close>

record bevel_placement =
  rotation_angle :: real
  rotation_axis :: point3
  rotation_center :: point3
  translation :: point3

record bevel_export =
  gear1 :: BevelGear
  gear2 :: BevelGear
  placement :: "bevel_placement option"

definition export_bevel_gears ::
  "gear_module \<Rightarrow> bool \<Rightarrow> bool \<Rightarrow> real \<Rightarrow> int \<Rightarrow> int \<Rightarrow> real \<Rightarrow> real \<Rightarrow> real \<Rightarrow> real \<Rightarrow> real
     \<Rightarrow> int \<Rightarrow> error + bevel_export option"
where
  "export_bevel_gears gear rhino_available brep2 module' teeth1 teeth2 pressure_angle'
       cone_angle' face_width' clearance' backlash' frame_count' =
     (if \<not> rhino_available then Inr None
      else
        case bevel_gear_pair gear module' teeth1 teeth2 pressure_angle' cone_angle'
               face_width' clearance' backlash' frame_count' of
          Inl e \<Rightarrow> Inl e
        | Inr (g1, g2) \<Rightarrow>
            if brep2 then
              (case apex_distance g1 of
                 Inl e \<Rightarrow> Inl e
               | Inr apex_distance1 \<Rightarrow>
                   Inr (Some \<lparr>gear1 = g1, gear2 = g2,
                              placement = Some \<lparr>rotation_angle = pi / 2,
                                                 rotation_axis = (0, 1, 0),
                                                 rotation_center = (0, 0, 0),
                                                 translation = (apex_distance1, 0, 0)\<rparr>\<rparr>))
            else Inr (Some \<lparr>gear1 = g1, gear2 = g2, placement = None\<rparr>))"


section \<open>Spur gears\<close>

text \<open>
  \<^verbatim>\<open>InvoluteGear.__init__\<close>: the tooth width is \<^verbatim>\<open>np.pi * module\<close>, and both the polygon
  and the pitch radius are what \<^verbatim>\<open>gear.generate\<close> returns for it, at the fixed
  \<^verbatim>\<open>frame_count=32\<close>.
\<close>

definition InvoluteGear_init ::
  "gear_module \<Rightarrow> real \<Rightarrow> int \<Rightarrow> real \<Rightarrow> real \<Rightarrow> real \<Rightarrow> real \<Rightarrow> error + InvoluteGear"
where
  "InvoluteGear_init gear module' teeth_number' pressure_angle' clearance' backlash'
       profile_shift' =
     (let tooth_width' = pi * module' in
      case generate gear teeth_number' tooth_width' (deg2rad gear pressure_angle') backlash' 32 of
        None \<Rightarrow> Inl GenerateError
      | Some (poly, pitch_radius') \<Rightarrow>
          Inr \<lparr>InvoluteGear.module = module', InvoluteGear.teeth_number = teeth_number',
               InvoluteGear.pressure_angle = pressure_angle',
               InvoluteGear.clearance = clearance', InvoluteGear.backlash = backlash',
               InvoluteGear.profile_shift = profile_shift',
               InvoluteGear.tooth_width = tooth_width', gear_poly = poly,
               InvoluteGear.pitch_radius = pitch_radius'\<rparr>)"













section \<open>The section stack in the words of the specification\<close>

text \<open>
  The quantities of the bevel section stack builder as the specification names them, to be
  compared with what the loop of \<^verbatim>\<open>_generate_sections\<close> computes.
\<close>

definition spec_apexDistance :: "real \<Rightarrow> real \<Rightarrow> real" where
  "spec_apexDistance pitchRadiusLargeEnd coneAngleDeg =
     pitchRadiusLargeEnd / sin (coneAngleDeg * pi / 180)"

definition spec_t :: "int \<Rightarrow> nat \<Rightarrow> real" where
  "spec_t sectionCount i = real i / real_of_int (sectionCount - 1)"

definition spec_sectionDistanceFromApex :: "real \<Rightarrow> real \<Rightarrow> real \<Rightarrow> real" where
  "spec_sectionDistanceFromApex apexDistance faceWidth t = apexDistance - t * faceWidth"

definition spec_scale :: "real \<Rightarrow> real \<Rightarrow> real \<Rightarrow> real" where
  "spec_scale apexDistance faceWidth t =
     spec_sectionDistanceFromApex apexDistance faceWidth t / apexDistance"

definition spec_effectiveModule :: "real \<Rightarrow> real \<Rightarrow> real" where
  "spec_effectiveModule module' scale' = module' * scale'"

definition spec_effectiveRadius :: "real \<Rightarrow> real \<Rightarrow> real" where
  "spec_effectiveRadius pitchRadius scale' = pitchRadius * scale'"

definition spec_axialOffset :: "real \<Rightarrow> real \<Rightarrow> real" where
  "spec_axialOffset faceWidth t = t * faceWidth"

text \<open>The scale of section \<open>i\<close> of a gear, at a given apex distance.\<close>

definition scale_at :: "BevelGear \<Rightarrow> real \<Rightarrow> int \<Rightarrow> nat \<Rightarrow> real" where
  "scale_at self apexDistance sectionCount i =
     spec_scale apexDistance (face_width self) (spec_t sectionCount i)"

text \<open>
  The profile of a section: the ring the profile generator returns for the tooth width
  \<open>pi * effectiveModule\<close>.
\<close>

definition section_profile :: "gear_module \<Rightarrow> BevelGear \<Rightarrow> real \<Rightarrow> point list" where
  "section_profile gear self effectiveModule =
     (case generate gear (BevelGear.teeth_number self) (pi * effectiveModule)
             (deg2rad gear (BevelGear.pressure_angle self)) (BevelGear.backlash self)
             (frame_count self) of
        None \<Rightarrow> []
      | Some (ring, _) \<Rightarrow> ring)"

definition spec_section :: "gear_module \<Rightarrow> BevelGear \<Rightarrow> real \<Rightarrow> int \<Rightarrow> nat \<Rightarrow> bevel_section" where
  "spec_section gear self apexDistance sectionCount i =
     \<lparr>points = section_profile gear self
                 (spec_effectiveModule (BevelGear.module self)
                    (scale_at self apexDistance sectionCount i)),
      z = spec_axialOffset (face_width self) (spec_t sectionCount i),
      scale = scale_at self apexDistance sectionCount i,
      radius = spec_effectiveRadius (BevelGear.pitch_radius self)
                 (scale_at self apexDistance sectionCount i)\<rparr>"

text \<open>The indices whose section is kept: those with a scale above the threshold 0.1.\<close>

definition kept :: "BevelGear \<Rightarrow> real \<Rightarrow> int \<Rightarrow> nat list" where
  "kept self apexDistance sectionCount =
     filter (\<lambda>i. scale_at self apexDistance sectionCount i > 1 / 10) [0 ..< nat sectionCount]"

definition spec_sections :: "gear_module \<Rightarrow> BevelGear \<Rightarrow> int \<Rightarrow> bevel_section list" where
  "spec_sections gear self sectionCount =
     (let apexDistance = spec_apexDistance (BevelGear.pitch_radius self) (cone_angle self)
      in map (spec_section gear self apexDistance sectionCount)
           (kept self apexDistance sectionCount))"

text \<open>
  The profile generator answers every call the loop makes for a kept section of the gear.
\<close>

definition generator_answers :: "gear_module \<Rightarrow> BevelGear \<Rightarrow> real \<Rightarrow> int \<Rightarrow> nat list \<Rightarrow> bool" where
  "generator_answers gear self apexDistance sectionCount idx =
     list_all (\<lambda>i. generate gear (BevelGear.teeth_number self)
                      (pi * (BevelGear.module self * scale_at self apexDistance sectionCount i))
                      (deg2rad gear (BevelGear.pressure_angle self)) (BevelGear.backlash self)
                      (frame_count self) \<noteq> None)
       (filter (\<lambda>i. scale_at self apexDistance sectionCount i > 1 / 10) idx)"

text \<open>
  The first gear of \<^verbatim>\<open>main\<close> at the command line's defaults (module 5, 20 teeth, pressure
  angle 20, cone angle 45, face width 15, clearance 0.25, no backlash, 16 points per curve),
  as the constructor holds it when it calls \<^verbatim>\<open>_generate_sections\<close>.
\<close>

definition default_gear :: BevelGear where
  "default_gear = \<lparr>module = 5, teeth_number = 20, pressure_angle = 20, cone_angle = 45,
                    face_width = 15, clearance = 1 / 4, backlash = 0, profile_shift = 0,
                    frame_count = 16, tooth_width = pi * 5,
                    pitch_radius = (real_of_int 20 * 5) / 2, sections = []\<rparr>"

text \<open>
  A stand-in for the absent library, used to run the functions on concrete inputs: it
  answers every call with a one-point ring that records the tooth width it was given, and
  with the pitch radius the specification states for the generator,
  \<open>toothWidth / pi * teethCount / 2\<close>.
\<close>

definition echo_gear :: gear_module where
  "echo_gear = \<lparr>generate = (\<lambda>teeth_count tooth_width' pressure_angle' backlash' frame_count'.
                    Some ([(tooth_width', 0)], tooth_width' * real_of_int teeth_count / (2 * pi))),
                deg2rad = (\<lambda>d. d * pi / 180)\<rparr>"

section \<open>Reading off a constructed gear\<close>


definition scales :: "BevelGear \<Rightarrow> real list" where
  "scales g = map scale (sections g)"

definition profiles :: "BevelGear \<Rightarrow> point list list" where
  "profiles g = map points (sections g)"







section \<open>The loop computes the specified stack\<close>

lemmas spec_defs = spec_t_def spec_sectionDistanceFromApex_def spec_scale_def
  spec_effectiveModule_def spec_effectiveRadius_def spec_axialOffset_def scale_at_def

lemma sections_loop_Inr:
  "sections_loop gear self n apex idx acc = Inr secs \<Longrightarrow>
   secs = acc @ map (spec_section gear self apex n) (filter (\<lambda>i. scale_at self apex n i > 1 / 10) idx)"
proof (induction idx arbitrary: acc)
  case Nil
  then show ?case by simp
next
  case (Cons i rest)
  show ?case
  proof (cases "scale_at self apex n i > 1 / 10")
    case True
    with Cons.prems obtain ring pr where
      g: "generate gear (BevelGear.teeth_number self) (pi * (BevelGear.module self * scale_at self apex n i))
            (deg2rad gear (BevelGear.pressure_angle self)) (BevelGear.backlash self) (frame_count self)
          = Some (ring, pr)"
      and r: "sections_loop gear self n apex rest
                (acc @ [\<lparr>points = ring, z = spec_t n i * face_width self,
                         scale = scale_at self apex n i,
                         radius = BevelGear.pitch_radius self * scale_at self apex n i\<rparr>]) = Inr secs"
      by (auto simp: Let_def spec_defs split: if_splits option.splits prod.splits)
    have "spec_section gear self apex n i =
            \<lparr>points = ring, z = spec_t n i * face_width self,
              scale = scale_at self apex n i,
              radius = BevelGear.pitch_radius self * scale_at self apex n i\<rparr>"
      using g by (simp add: spec_section_def section_profile_def spec_effectiveModule_def
          spec_effectiveRadius_def spec_axialOffset_def)
    with Cons.IH[OF r] True show ?thesis by simp
  next
    case False
    with Cons.prems have "sections_loop gear self n apex rest acc = Inr secs"
      by (auto simp: Let_def spec_defs split: if_splits option.splits prod.splits)
    from Cons.IH[OF this] False show ?thesis by simp
  qed
qed

lemma sections_loop_total:
  "n \<noteq> 1 \<Longrightarrow> apex \<noteq> 0 \<Longrightarrow> generator_answers gear self apex n idx \<Longrightarrow>
   sections_loop gear self n apex idx acc =
     Inr (acc @ map (spec_section gear self apex n) (filter (\<lambda>i. scale_at self apex n i > 1 / 10) idx))"
proof (induction idx arbitrary: acc)
  case Nil
  then show ?case by simp
next
  case (Cons i rest)
  have rest: "generator_answers gear self apex n rest"
    using Cons.prems(3) by (simp add: generator_answers_def split: if_splits)
  note IH = Cons.IH[OF Cons.prems(1,2) rest]
  show ?case
  proof (cases "scale_at self apex n i > 1 / 10")
    case True
    with Cons.prems(3) obtain ring pr where
      g: "generate gear (BevelGear.teeth_number self) (pi * (BevelGear.module self * scale_at self apex n i))
            (deg2rad gear (BevelGear.pressure_angle self)) (BevelGear.backlash self) (frame_count self)
          = Some (ring, pr)"
      by (auto simp: generator_answers_def)
    have s: "spec_section gear self apex n i =
            \<lparr>points = ring, z = spec_t n i * face_width self,
              scale = scale_at self apex n i,
              radius = BevelGear.pitch_radius self * scale_at self apex n i\<rparr>"
      using g by (simp add: spec_section_def section_profile_def spec_effectiveModule_def
          spec_effectiveRadius_def spec_axialOffset_def)
    have "sections_loop gear self n apex (i # rest) acc =
          sections_loop gear self n apex rest (acc @ [spec_section gear self apex n i])"
      using True g Cons.prems(1,2) unfolding s
      by (simp add: Let_def spec_defs)
    then show ?thesis using IH True by simp
  next
    case False
    have "sections_loop gear self n apex (i # rest) acc = sections_loop gear self n apex rest acc"
      using False Cons.prems(1,2) by (simp add: Let_def spec_defs)
    then show ?thesis using IH False by simp
  qed
qed


lemma apex_distance_Inr:
  "apex_distance self = Inr a \<longleftrightarrow>
     sin (radians (cone_angle self)) \<noteq> 0 \<and>
     a = spec_apexDistance (BevelGear.pitch_radius self) (cone_angle self)"
  by (auto simp: apex_distance_def spec_apexDistance_def radians_def)

lemma generate_sections_Inr:
  assumes "generate_sections gear self n = Inr secs"
  shows "sin (radians (cone_angle self)) \<noteq> 0" and "secs = spec_sections gear self n"
proof -
  from assms obtain a where a: "apex_distance self = Inr a"
    and l: "sections_loop gear self n a [0 ..< nat n] [] = Inr secs"
    by (auto simp: generate_sections_def split: sum.splits)
  from a show "sin (radians (cone_angle self)) \<noteq> 0" by (simp add: apex_distance_Inr)
  from a have "a = spec_apexDistance (BevelGear.pitch_radius self) (cone_angle self)"
    by (simp add: apex_distance_Inr)
  with sections_loop_Inr[OF l] show "secs = spec_sections gear self n"
    by (simp add: spec_sections_def kept_def Let_def)
qed

lemma generate_sections_nonzero:
  assumes "generate_sections gear self n = Inr secs" and "2 \<le> n"
  shows "spec_apexDistance (BevelGear.pitch_radius self) (cone_angle self) \<noteq> 0"
proof -
  from assms(1) obtain a where a: "apex_distance self = Inr a"
    and l: "sections_loop gear self n a [0 ..< nat n] [] = Inr secs"
    by (auto simp: generate_sections_def split: sum.splits)
  from assms(2) have "[0 ..< nat n] = 0 # [1 ..< nat n]"
    by (simp add: upt_conv_Cons)
  with l have "a \<noteq> 0" by (auto simp: Let_def split: if_splits)
  with a show ?thesis by (simp add: apex_distance_Inr)
qed

lemma generate_sections_total:
  assumes "sin (radians (cone_angle self)) \<noteq> 0" and "n \<noteq> 1"
    and "BevelGear.pitch_radius self \<noteq> 0"
    and "generator_answers gear self
           (spec_apexDistance (BevelGear.pitch_radius self) (cone_angle self)) n [0 ..< nat n]"
  shows "generate_sections gear self n = Inr (spec_sections gear self n)"
proof -
  let ?a = "spec_apexDistance (BevelGear.pitch_radius self) (cone_angle self)"
  have a: "apex_distance self = Inr ?a" using assms(1) by (simp add: apex_distance_Inr)
  have nz: "?a \<noteq> 0" using assms(1,3) by (simp add: spec_apexDistance_def radians_def)
  show ?thesis
    using sections_loop_total[OF assms(2) nz assms(4), of "[]"] a
    by (simp add: generate_sections_def spec_sections_def kept_def Let_def)
qed

lemma generator_answers_total:
  assumes "\<And>tw. generate gear (BevelGear.teeth_number self) tw
             (deg2rad gear (BevelGear.pressure_angle self)) (BevelGear.backlash self)
             (frame_count self) \<noteq> None"
  shows "generator_answers gear self a n idx"
  using assms by (simp add: generator_answers_def list_all_iff)

lemma echo_gear_answers: "generator_answers echo_gear self a n idx"
  by (rule generator_answers_total) (simp add: echo_gear_def)

lemma sections_loop_sections:
  "sections_loop gear (self\<lparr>sections := secs\<rparr>) n a idx acc = sections_loop gear self n a idx acc"
  by (induction idx arbitrary: acc) (simp_all add: Let_def split: option.splits)

lemma generate_sections_sections:
  "generate_sections gear (self\<lparr>sections := secs\<rparr>) n = generate_sections gear self n"
  by (simp add: generate_sections_def apex_distance_def sections_loop_sections)

text \<open>The gear record as the constructor fills it before the sections are generated.\<close>

lemma BevelGear_init_Inr:
  assumes "BevelGear_init gear m t pa ca fw cl bl ps fc = Inr g"
  shows "BevelGear.module g = m" "BevelGear.teeth_number g = t"
    "BevelGear.pressure_angle g = pa" "cone_angle g = ca" "face_width g = fw"
    "BevelGear.clearance g = cl" "BevelGear.backlash g = bl" "BevelGear.profile_shift g = ps"
    "frame_count g = fc" "BevelGear.tooth_width g = pi * m"
    "BevelGear.pitch_radius g = real_of_int t * m / 2"
    "generate_sections gear g 10 = Inr (sections g)"
proof -
  let ?self = "\<lparr>module = m, teeth_number = t, pressure_angle = pa, cone_angle = ca,
                 face_width = fw, clearance = cl, backlash = bl, profile_shift = ps,
                 frame_count = fc, tooth_width = pi * m,
                 pitch_radius = (real_of_int t * m) / 2, sections = []\<rparr>"
  from assms obtain secs where gs: "generate_sections gear ?self 10 = Inr secs"
    and g: "g = ?self\<lparr>sections := secs\<rparr>"
    by (auto simp: BevelGear_init_def Let_def split: sum.splits)
  show "BevelGear.module g = m" "BevelGear.teeth_number g = t"
    "BevelGear.pressure_angle g = pa" "cone_angle g = ca" "face_width g = fw"
    "BevelGear.clearance g = cl" "BevelGear.backlash g = bl" "BevelGear.profile_shift g = ps"
    "frame_count g = fc" "BevelGear.tooth_width g = pi * m"
    "BevelGear.pitch_radius g = real_of_int t * m / 2"
    by (simp_all add: g)
  have "generate_sections gear g 10 = generate_sections gear ?self 10"
    unfolding g by (rule generate_sections_sections)
  with gs show "generate_sections gear g 10 = Inr (sections g)" by (simp add: g)
qed

lemma BevelGear_init_sections:
  assumes "BevelGear_init gear m t pa ca fw cl bl ps fc = Inr g"
  shows "sections g = spec_sections gear g 10"
    and "sin (radians (cone_angle g)) \<noteq> 0"
    and "spec_apexDistance (BevelGear.pitch_radius g) (cone_angle g) \<noteq> 0"
    and "apex_distance g = Inr (spec_apexDistance (BevelGear.pitch_radius g) (cone_angle g))"
proof -
  note gs = BevelGear_init_Inr(12)[OF assms]
  show "sections g = spec_sections gear g 10" using generate_sections_Inr(2)[OF gs] .
  show s: "sin (radians (cone_angle g)) \<noteq> 0" using generate_sections_Inr(1)[OF gs] .
  show "spec_apexDistance (BevelGear.pitch_radius g) (cone_angle g) \<noteq> 0"
    using generate_sections_nonzero[OF gs] by simp
  show "apex_distance g = Inr (spec_apexDistance (BevelGear.pitch_radius g) (cone_angle g))"
    using s by (simp add: apex_distance_Inr)
qed

lemma BevelGear_init_total:
  assumes "sin (radians ca) \<noteq> 0" and "real_of_int t * m \<noteq> 0"
    and "\<And>tw. generate gear t tw (deg2rad gear pa) bl fc \<noteq> None"
  shows "\<exists>g. BevelGear_init gear m t pa ca fw cl bl ps fc = Inr g"
proof -
  let ?self = "\<lparr>module = m, teeth_number = t, pressure_angle = pa, cone_angle = ca,
                 face_width = fw, clearance = cl, backlash = bl, profile_shift = ps,
                 frame_count = fc, tooth_width = pi * m,
                 pitch_radius = (real_of_int t * m) / 2, sections = []\<rparr>"
  have "generate_sections gear ?self 10 = Inr (spec_sections gear ?self 10)"
    by (rule generate_sections_total) (use assms in \<open>simp_all add: generator_answers_total\<close>)
  then show ?thesis by (simp add: BevelGear_init_def)
qed

subsection \<open>Arithmetic of the scale\<close>

lemma scale_at_eq:
  "a \<noteq> 0 \<Longrightarrow> scale_at self a n i = 1 - spec_t n i * face_width self / a"
  by (simp add: scale_at_def spec_scale_def spec_sectionDistanceFromApex_def diff_divide_distrib)

lemma scale_at_0: "a \<noteq> 0 \<Longrightarrow> scale_at self a n 0 = 1"
  by (simp add: scale_at_eq spec_t_def)


lemma spec_t_range: "2 \<le> n \<Longrightarrow> i < nat n \<Longrightarrow> 0 \<le> spec_t n i \<and> spec_t n i \<le> 1"
  by (auto simp: spec_t_def)


lemma spec_section_sel:
  "z (spec_section gear self a n i) = spec_t n i * face_width self"
  "scale (spec_section gear self a n i) = scale_at self a n i"
  "radius (spec_section gear self a n i) = BevelGear.pitch_radius self * scale_at self a n i"
  "points (spec_section gear self a n i) =
     section_profile gear self (BevelGear.module self * scale_at self a n i)"
  by (simp_all add: spec_section_def spec_axialOffset_def spec_effectiveRadius_def
      spec_effectiveModule_def)

lemma spec_sections_member:
  assumes "s \<in> set (spec_sections gear self n)"
  obtains i where "i < nat n"
    and "s = spec_section gear self (spec_apexDistance (BevelGear.pitch_radius self) (cone_angle self)) n i"
    and "scale_at self (spec_apexDistance (BevelGear.pitch_radius self) (cone_angle self)) n i > 1 / 10"
  using assms by (auto simp: spec_sections_def kept_def Let_def)

lemma spec_sections_hd:
  assumes "spec_apexDistance (BevelGear.pitch_radius self) (cone_angle self) \<noteq> 0" and "1 \<le> n"
  shows "\<exists>rest. spec_sections gear self n =
           spec_section gear self (spec_apexDistance (BevelGear.pitch_radius self) (cone_angle self)) n 0 # rest"
proof -
  from assms(2) have "[0 ..< nat n] = 0 # [1 ..< nat n]" by (simp add: upt_conv_Cons)
  then show ?thesis using assms(1)
    by (simp add: spec_sections_def kept_def Let_def scale_at_0)
qed


lemma sin_radians_pos: "0 < d \<Longrightarrow> d < 180 \<Longrightarrow> 0 < sin (radians d)"
  by (rule sin_gt_zero) (simp_all add: radians_def)

lemma spec_sections_explicit:
  "spec_sections gear self n =
     (let apexDistance = BevelGear.pitch_radius self / sin (cone_angle self * pi / 180) in
      map (\<lambda>i.
             let t = real i / real_of_int (n - 1);
                 sectionDistanceFromApex = apexDistance - t * face_width self;
                 scale' = sectionDistanceFromApex / apexDistance;
                 effectiveModule = BevelGear.module self * scale';
                 effectiveRadius = BevelGear.pitch_radius self * scale';
                 axialOffset = t * face_width self
             in \<lparr>points = section_profile gear self effectiveModule, z = axialOffset,
                  scale = scale', radius = effectiveRadius\<rparr>)
        (filter (\<lambda>i. 1 / 10 < (apexDistance - real i / real_of_int (n - 1) * face_width self)
                                  / apexDistance)
           [0 ..< nat n]))"
  unfolding spec_sections_def kept_def Let_def spec_section_def spec_defs spec_apexDistance_def
  by (rule refl)

section \<open>Claims about the section stack\<close>

text \<open>
  C1. For a bevel gear with cone angle in (0, 90] degrees the apex distance is the pitch
  radius divided by the sine of the cone angle in radians, and it is computed without error.
  Whenever \<^verbatim>\<open>_generate_sections\<close> returns, its result lists, for the indices \<open>i\<close> of
  \<open>0 ..< sectionCount\<close> in order whose scale exceeds 0.1, the section with
  \<open>t = i / (sectionCount - 1)\<close>, \<open>sectionDistanceFromApex = apexDistance - t * faceWidth\<close>,
  \<open>scale = sectionDistanceFromApex / apexDistance\<close>, \<open>effectiveModule = module * scale\<close>
  (the profile is generated at tooth width \<open>pi * effectiveModule\<close>),
  \<open>effectiveRadius = pitchRadius * scale\<close> and \<open>axialOffset = t * faceWidth\<close>. It does return
  when the section count is not 1, the pitch radius is not 0 and the profile generator
  answers. The witness is the scenario module 5, 20 teeth, cone angle 45 degrees, where the
  apex distance is \<open>50 / sin (45 degrees)\<close>.
\<close>

theorem generate_sections_formulas:
  assumes "0 < cone_angle self" and "cone_angle self \<le> 90"
  shows
    "(let apexDistance = BevelGear.pitch_radius self / sin (cone_angle self * pi / 180) in
      apex_distance self = Inr apexDistance \<and>
      (\<forall>secs. generate_sections gear self sectionCount = Inr secs \<longrightarrow>
         secs =
           map (\<lambda>i.
                  let t = real i / real_of_int (sectionCount - 1);
                      sectionDistanceFromApex = apexDistance - t * face_width self;
                      scale' = sectionDistanceFromApex / apexDistance;
                      effectiveModule = BevelGear.module self * scale';
                      effectiveRadius = BevelGear.pitch_radius self * scale';
                      axialOffset = t * face_width self
                  in \<lparr>points = section_profile gear self effectiveModule, z = axialOffset,
                       scale = scale', radius = effectiveRadius\<rparr>)
             (filter (\<lambda>i. 1 / 10 <
                        (apexDistance - real i / real_of_int (sectionCount - 1) * face_width self)
                          / apexDistance)
                [0 ..< nat sectionCount])) \<and>
      (sectionCount \<noteq> 1 \<and> BevelGear.pitch_radius self \<noteq> 0 \<and>
       generator_answers gear self apexDistance sectionCount [0 ..< nat sectionCount] \<longrightarrow>
         (\<exists>secs. generate_sections gear self sectionCount = Inr secs)))"
proof -
  have s: "sin (radians (cone_angle self)) \<noteq> 0"
    using sin_radians_pos[of "cone_angle self"] assms by simp
  have a: "apex_distance self =
             Inr (BevelGear.pitch_radius self / sin (cone_angle self * pi / 180))"
    using s by (simp add: apex_distance_def radians_def)
  have b: "secs = spec_sections gear self sectionCount"
    if "generate_sections gear self sectionCount = Inr secs" for secs
    using generate_sections_Inr(2)[OF that] .
  have c: "\<exists>secs. generate_sections gear self sectionCount = Inr secs"
    if "sectionCount \<noteq> 1" "BevelGear.pitch_radius self \<noteq> 0"
      "generator_answers gear self
         (BevelGear.pitch_radius self / sin (cone_angle self * pi / 180)) sectionCount
         [0 ..< nat sectionCount]"
    using generate_sections_total[OF s that(1,2)] that(3)
    by (simp add: spec_apexDistance_def)
  show ?thesis
    unfolding Let_def
    using a b c spec_sections_explicit[of gear self sectionCount, unfolded Let_def]
    by auto
qed

theorem generate_sections_formulas_witness:
  "0 < cone_angle default_gear \<and> cone_angle default_gear \<le> 90 \<and>
   apex_distance default_gear = Inr (50 / sin (45 * pi / 180)) \<and>
   generate_sections echo_gear default_gear 10 = Inr (spec_sections echo_gear default_gear 10)"
proof -
  have h: "0 < cone_angle default_gear" "cone_angle default_gear \<le> 90"
    by (simp_all add: default_gear_def)
  note t = generate_sections_formulas[OF h, of echo_gear 10, unfolded Let_def]
  have p: "BevelGear.pitch_radius default_gear = 50" "cone_angle default_gear = 45"
    by (simp_all add: default_gear_def)
  from t have 1: "apex_distance default_gear = Inr (50 / sin (45 * pi / 180))"
    by (simp add: p)
  from t have "\<exists>secs. generate_sections echo_gear default_gear 10 = Inr secs"
    by (simp add: p echo_gear_answers)
  then obtain secs where s: "generate_sections echo_gear default_gear 10 = Inr secs" ..
  with t have "secs = spec_sections echo_gear default_gear 10"
    using generate_sections_Inr(2) by blast
  with s 1 h show ?thesis by simp
qed

subsection \<open>Evaluation on concrete inputs\<close>

lemma upt_10: "[0 ..< 10] = [0::nat, 1, 2, 3, 4, 5, 6, 7, 8, 9]"
  by code_simp

lemma sin_30_deg: "sin (radians 30) = 1 / 2"
  by (simp add: radians_def sin_30)

lemma sin_60_deg: "sin (radians 60) = sqrt 3 / 2"
  by (simp add: radians_def sin_60)

lemma sin_90_deg: "sin (radians 90) = 1"
  by (simp add: radians_def)

lemmas run_defs = BevelGear_init_def generate_sections_def apex_distance_def upt_10
  echo_gear_def Let_def

lemma echo_gear_init_total:
  assumes "sin (radians ca) \<noteq> 0" and "real_of_int t * m \<noteq> 0"
  shows "\<exists>g. BevelGear_init echo_gear m t pa ca fw cl bl ps fc = Inr g"
  by (rule BevelGear_init_total) (use assms in \<open>simp_all add: echo_gear_def\<close>)

subsection \<open>Properties of the sections of a constructed gear\<close>

lemma spec_sections_props:
  assumes "s \<in> set (spec_sections gear self n)" and "2 \<le> n"
    and "a = spec_apexDistance (BevelGear.pitch_radius self) (cone_angle self)" and "a \<noteq> 0"
  shows "scale s = 1 - z s / a" and "1 / 10 < scale s"
    and "radius s = BevelGear.pitch_radius self * scale s"
    and "\<exists>t. 0 \<le> t \<and> t \<le> 1 \<and> z s = t * face_width self"
proof -
  from assms(1) obtain i where i: "i < nat n" and s: "s = spec_section gear self a n i"
    and k: "scale_at self a n i > 1 / 10"
    unfolding assms(3) by (rule spec_sections_member)
  show "scale s = 1 - z s / a" using assms(4) by (simp add: s spec_section_sel scale_at_eq)
  show "1 / 10 < scale s" using k by (simp add: s spec_section_sel)
  show "radius s = BevelGear.pitch_radius self * scale s" by (simp add: s spec_section_sel)
  show "\<exists>t. 0 \<le> t \<and> t \<le> 1 \<and> z s = t * face_width self"
    using spec_t_range[OF assms(2) i] by (auto simp: s spec_section_sel)
qed










text \<open>
  C2, as amended. The source has no check of the face width against the apex distance and
  raises nothing on that account. When the face width is at least the (positive) apex
  distance and the profile generator answers, the constructor returns a gear: the sections
  of scale at most 0.1, among them every section of zero or negative scale and always the
  small-end one, are silently dropped, so the stack has fewer than ten entries, is not
  empty, and every emitted scale exceeds 0.1. The claim as stated fails at module 5, 20
  teeth, cone angle 90 and face width 50, equal to the apex distance: nine sections are
  returned.
\<close>

theorem no_error_when_face_width_reaches_apex:
  assumes "sin (radians ca) \<noteq> 0"
    and "apexDistance = (real_of_int t * m / 2) / sin (radians ca)"
    and "0 < apexDistance" and "apexDistance \<le> fw"
    and "\<forall>tw. generate gear t tw (deg2rad gear pa) bl fc \<noteq> None"
  shows "\<exists>g. BevelGear_init gear m t pa ca fw cl bl ps fc = Inr g \<and>
             apex_distance g = Inr apexDistance \<and>
             length (sections g) < 10 \<and> sections g \<noteq> [] \<and>
             (\<forall>s \<in> set (sections g). 1 / 10 < scale s)"
proof -
  have "real_of_int t * m \<noteq> 0" using assms(1,2,3) by auto
  with assms(1,5) obtain g where g: "BevelGear_init gear m t pa ca fw cl bl ps fc = Inr g"
    using BevelGear_init_total[of ca t m gear pa bl fc fw cl ps] by auto
  note S = BevelGear_init_sections(1)[OF g]
  have a: "apexDistance = spec_apexDistance (BevelGear.pitch_radius g) (cone_angle g)"
    by (simp add: assms(2) spec_apexDistance_def radians_def BevelGear_init_Inr(4,11)[OF g])
  have ad: "apex_distance g = Inr apexDistance"
    using BevelGear_init_sections(4)[OF g] a by simp
  have nz: "apexDistance \<noteq> 0" using assms(3) by simp
  have fw: "face_width g = fw" using BevelGear_init_Inr(5)[OF g] .
  have "1 \<le> fw / apexDistance" using assms(3,4) by (simp add: pos_le_divide_eq)
  moreover have "scale_at g apexDistance 10 9 = 1 - fw / apexDistance"
    by (simp add: scale_at_eq[OF nz] spec_t_def fw)
  ultimately have "\<not> 1 / 10 < scale_at g apexDistance 10 9"
    by linarith
  then have "length (filter (\<lambda>i. 1 / 10 < scale_at g apexDistance 10 i) [0 ..< nat 10])
               < length [0 ..< nat 10]"
    by (intro length_filter_less[of 9]) simp_all
  then have 1: "length (sections g) < 10"
    unfolding S spec_sections_def kept_def Let_def a[symmetric] by simp
  obtain rest where h: "sections g = spec_section gear g apexDistance 10 0 # rest"
    using spec_sections_hd[of g 10 gear] nz unfolding S a by auto
  then have 2: "sections g \<noteq> []" by simp
  have 3: "\<forall>s \<in> set (sections g). 1 / 10 < scale s"
    using spec_sections_props(2)[OF _ _ a nz, of _ gear 10] unfolding S by simp
  from g ad 1 2 3 show ?thesis by blast
qed

theorem no_error_when_face_width_reaches_apex_witness:
  "sin (radians 90) \<noteq> 0 \<and> (50::real) = (real_of_int 20 * 5 / 2) / sin (radians 90) \<and>
   (0::real) < 50 \<and> (50::real) \<le> 75 \<and>
   (\<exists>g. BevelGear_init echo_gear 5 20 20 90 75 (1 / 4) 0 0 16 = Inr g \<and>
        apex_distance g = Inr 50 \<and>
        scales g = [1, 5 / 6, 2 / 3, 1 / 2, 1 / 3, 1 / 6] \<and>
        length (sections g) < 10 \<and> sections g \<noteq> [])"
proof -
  let ?r = "BevelGear_init echo_gear 5 20 20 90 75 (1 / 4) 0 0 16"
  have h: "sin (radians 90) \<noteq> 0" "(50::real) = (real_of_int 20 * 5 / 2) / sin (radians 90)"
    "(0::real) < 50" "(50::real) \<le> 75"
    "\<forall>tw. generate echo_gear 20 tw (deg2rad echo_gear 20) 0 16 \<noteq> None"
    by (simp_all add: sin_90_deg echo_gear_def)
  from no_error_when_face_width_reaches_apex[OF h, of "1 / 4" 0]
  obtain g where g: "?r = Inr g" and a: "apex_distance g = Inr 50"
    and l: "length (sections g) < 10" "sections g \<noteq> []" by blast
  have "map_sum id scales ?r = Inr [1, 5 / 6, 2 / 3, 1 / 2, 1 / 3, 1 / 6]"
    by (simp add: run_defs sin_90_deg scales_def)
  then have s: "scales g = [1, 5 / 6, 2 / 3, 1 / 2, 1 / 3, 1 / 6]" by (simp add: g)
  from h(1-4) g a l s show ?thesis by blast
qed

theorem no_invalid_configuration_counterexample:
  "spec_apexDistance (real_of_int 20 * 5 / 2) 90 = 50 \<and> (50::real) \<le> 50 \<and>
   map_sum id scales (BevelGear_init echo_gear 5 20 20 90 50 (1 / 4) 0 0 16)
     = Inr [1, 8 / 9, 7 / 9, 2 / 3, 5 / 9, 4 / 9, 1 / 3, 2 / 9, 1 / 9]"
  by (simp add: run_defs sin_90_deg scales_def spec_apexDistance_def)

section \<open>Claims about the construction of gears\<close>

lemma bevel_gear_pair_Inr:
  assumes "bevel_gear_pair gear m t1 t2 pa ca fw cl bl fc = Inr (g1, g2)"
  shows "BevelGear_init gear m t1 pa ca fw cl bl 0 fc = Inr g1"
    and "BevelGear_init gear m t2 pa (90 - ca) fw cl bl 0 fc = Inr g2"
  using assms by (auto simp: bevel_gear_pair_def split: sum.splits)

text \<open>
  C7. Whenever the two mating bevel gears are built, the second gear's cone angle is 90
  minus the first gear's cone angle in degrees, and the module, pressure angle, face width,
  clearance, backlash and sample count (and the default profile shift) of the second gear
  are those of the first; only the tooth counts are the two given ones. The export builds
  the same pair.
\<close>

theorem second_gear_complementary:
  assumes "bevel_gear_pair gear m t1 t2 pa ca fw cl bl fc = Inr (g1, g2)"
  shows "cone_angle g1 = ca \<and> cone_angle g2 = 90 - cone_angle g1 \<and>
         BevelGear.module g2 = BevelGear.module g1 \<and>
         BevelGear.pressure_angle g2 = BevelGear.pressure_angle g1 \<and>
         face_width g2 = face_width g1 \<and>
         BevelGear.clearance g2 = BevelGear.clearance g1 \<and>
         BevelGear.backlash g2 = BevelGear.backlash g1 \<and>
         frame_count g2 = frame_count g1 \<and>
         BevelGear.profile_shift g2 = BevelGear.profile_shift g1 \<and>
         BevelGear.teeth_number g1 = t1 \<and> BevelGear.teeth_number g2 = t2 \<and>
         (\<forall>brep2 ex. export_bevel_gears gear True brep2 m t1 t2 pa ca fw cl bl fc = Inr (Some ex)
             \<longrightarrow> gear1 ex = g1 \<and> gear2 ex = g2)"
proof -
  note a = BevelGear_init_Inr[OF bevel_gear_pair_Inr(1)[OF assms]]
  note b = BevelGear_init_Inr[OF bevel_gear_pair_Inr(2)[OF assms]]
  have "gear1 ex = g1 \<and> gear2 ex = g2"
    if "export_bevel_gears gear True brep2 m t1 t2 pa ca fw cl bl fc = Inr (Some ex)"
    for brep2 ex
    using that assms by (auto simp: export_bevel_gears_def split: if_splits sum.splits)
  then show ?thesis by (simp add: a(1-11) b(1-11))
qed

theorem second_gear_complementary_witness:
  "\<exists>g1 g2. bevel_gear_pair echo_gear 5 20 30 20 30 15 (1 / 4) 0 16 = Inr (g1, g2) \<and>
      cone_angle g1 = 30 \<and> cone_angle g2 = 60 \<and>
      BevelGear.module g1 = 5 \<and> BevelGear.module g2 = 5 \<and>
      BevelGear.pressure_angle g2 = 20 \<and> face_width g2 = 15 \<and>
      BevelGear.clearance g2 = 1 / 4 \<and> BevelGear.backlash g2 = 0 \<and> frame_count g2 = 16 \<and>
      BevelGear.teeth_number g1 = 20 \<and> BevelGear.teeth_number g2 = 30"
proof -
  have "\<exists>g1. BevelGear_init echo_gear 5 20 20 30 15 (1 / 4) 0 0 16 = Inr g1"
    by (rule echo_gear_init_total) (simp_all add: sin_30_deg)
  then obtain g1 where g1: "BevelGear_init echo_gear 5 20 20 30 15 (1 / 4) 0 0 16 = Inr g1" ..
  have "\<exists>g2. BevelGear_init echo_gear 5 30 20 60 15 (1 / 4) 0 0 16 = Inr g2"
    by (rule echo_gear_init_total) (simp_all add: sin_60_deg)
  then obtain g2 where g2: "BevelGear_init echo_gear 5 30 20 60 15 (1 / 4) 0 0 16 = Inr g2" ..
  have p: "bevel_gear_pair echo_gear 5 20 30 20 30 15 (1 / 4) 0 16 = Inr (g1, g2)"
    by (simp add: bevel_gear_pair_def g1 g2)
  from second_gear_complementary[OF p] BevelGear_init_Inr(1-9)[OF g1] p
  show ?thesis by auto
qed



lemma sections_loop_answers:
  "sections_loop gear self n a idx acc = Inr secs \<Longrightarrow> generator_answers gear self a n idx"
proof (induction idx arbitrary: acc)
  case Nil
  then show ?case by (simp add: generator_answers_def)
next
  case (Cons i rest)
  show ?case
  proof (cases "scale_at self a n i > 1 / 10")
    case True
    with Cons.prems obtain ring pr where
      g: "generate gear (BevelGear.teeth_number self) (pi * (BevelGear.module self * scale_at self a n i))
            (deg2rad gear (BevelGear.pressure_angle self)) (BevelGear.backlash self) (frame_count self)
          = Some (ring, pr)"
      and r: "sections_loop gear self n a rest
                (acc @ [\<lparr>points = ring, z = spec_t n i * face_width self,
                         scale = scale_at self a n i,
                         radius = BevelGear.pitch_radius self * scale_at self a n i\<rparr>]) = Inr secs"
      by (auto simp: Let_def spec_defs split: if_splits option.splits prod.splits)
    from Cons.IH[OF r] g True show ?thesis by (simp add: generator_answers_def)
  next
    case False
    with Cons.prems have "sections_loop gear self n a rest acc = Inr secs"
      by (auto simp: Let_def spec_defs split: if_splits option.splits prod.splits)
    from Cons.IH[OF this] False show ?thesis by (simp add: generator_answers_def)
  qed
qed

lemma section_generated:
  assumes "BevelGear_init gear m t pa ca fw cl bl ps fc = Inr g" and "s \<in> set (sections g)"
  shows "\<exists>pr. generate gear t (pi * (m * scale s)) (deg2rad gear pa) bl fc = Some (points s, pr)"
proof -
  let ?a = "spec_apexDistance (BevelGear.pitch_radius g) (cone_angle g)"
  note f = BevelGear_init_Inr[OF assms(1)]
  from f(12) have l: "sections_loop gear g 10 ?a [0 ..< nat 10] [] = Inr (sections g)"
    by (auto simp: generate_sections_def apex_distance_Inr split: sum.splits)
  from assms(2) obtain i where i: "i < nat 10" and s: "s = spec_section gear g ?a 10 i"
    and k: "scale_at g ?a 10 i > 1 / 10"
    unfolding BevelGear_init_sections(1)[OF assms(1)] by (rule spec_sections_member)
  from sections_loop_answers[OF l] i k obtain ring pr where
    "generate gear t (pi * (m * scale_at g ?a 10 i)) (deg2rad gear pa) bl fc = Some (ring, pr)"
    by (fastforce simp: generator_answers_def list_all_iff f(1-9))
  then show ?thesis
    by (simp add: s spec_section_sel section_profile_def f(1-9))
qed

text \<open>
  C8, as amended. A constructed bevel gear has pitch radius \<open>module * teethCount / 2\<close>
  exactly and stores the tooth width \<open>pi * module\<close>; the tooth width it passes to profile
  generation is \<open>pi * module * scale\<close> for each section, which is \<open>pi * module\<close> only where
  the scale is 1, as at the large end. A constructed spur gear passes the tooth width
  \<open>pi * module\<close>, and its pitch radius is the one the generator returns for it: that is
  \<open>module * teethCount / 2\<close> when the generator returns \<open>toothWidth / pi * teethCount / 2\<close>,
  as the specification says of it. The claim as stated fails for the bevel gear of module 5
  with 20 teeth, cone angle 90 and face width 15: a generator that records the tooth width
  it is given shows \<open>pi * 29 / 6\<close> at the second section.
\<close>

theorem pitch_radius_and_tooth_width:
  "(\<forall>g. BevelGear_init gear m t pa ca fw cl bl ps fc = Inr g \<longrightarrow>
      BevelGear.pitch_radius g = m * real_of_int t / 2 \<and>
      BevelGear.tooth_width g = pi * m \<and>
      (\<forall>s \<in> set (sections g).
         \<exists>pr. generate gear t (pi * (m * scale s)) (deg2rad gear pa) bl fc = Some (points s, pr)) \<and>
      scale (hd (sections g)) = 1) \<and>
   (\<forall>g. InvoluteGear_init gear m t pa cl bl ps = Inr g \<longrightarrow>
      InvoluteGear.tooth_width g = pi * m \<and>
      generate gear t (pi * m) (deg2rad gear pa) bl 32
        = Some (gear_poly g, InvoluteGear.pitch_radius g) \<and>
      ((\<forall>teeth_count tw a b f ring pr.
          generate gear teeth_count tw a b f = Some (ring, pr) \<longrightarrow>
            pr = tw / pi * real_of_int teeth_count / 2) \<longrightarrow>
         InvoluteGear.pitch_radius g = m * real_of_int t / 2))"
proof (intro conjI allI impI)
  fix g assume g: "BevelGear_init gear m t pa ca fw cl bl ps fc = Inr g"
  note f = BevelGear_init_Inr[OF g]
  show "BevelGear.pitch_radius g = m * real_of_int t / 2" by (simp add: f(11) mult.commute)
  show "BevelGear.tooth_width g = pi * m" by (rule f(10))
  show "\<forall>s \<in> set (sections g).
         \<exists>pr. generate gear t (pi * (m * scale s)) (deg2rad gear pa) bl fc = Some (points s, pr)"
    using section_generated[OF g] by blast
  let ?a = "spec_apexDistance (BevelGear.pitch_radius g) (cone_angle g)"
  have nz: "?a \<noteq> 0" by (rule BevelGear_init_sections(3)[OF g])
  obtain rest where h: "sections g = spec_section gear g ?a 10 0 # rest"
    using spec_sections_hd[of g 10 gear] nz unfolding BevelGear_init_sections(1)[OF g] by auto
  show "scale (hd (sections g)) = 1" using nz by (simp add: h spec_section_sel scale_at_0)
next
  fix g assume g: "InvoluteGear_init gear m t pa cl bl ps = Inr g"
  then show "InvoluteGear.tooth_width g = pi * m"
    by (auto simp: InvoluteGear_init_def Let_def split: option.splits)
  from g show c: "generate gear t (pi * m) (deg2rad gear pa) bl 32
        = Some (gear_poly g, InvoluteGear.pitch_radius g)"
    by (auto simp: InvoluteGear_init_def Let_def split: option.splits)
  assume "\<forall>teeth_count tw a b f ring pr.
          generate gear teeth_count tw a b f = Some (ring, pr) \<longrightarrow>
            pr = tw / pi * real_of_int teeth_count / 2"
  with c have "InvoluteGear.pitch_radius g = pi * m / pi * real_of_int t / 2" by blast
  then show "InvoluteGear.pitch_radius g = m * real_of_int t / 2" by simp
qed

theorem pitch_radius_and_tooth_width_witness:
  "(\<exists>g. BevelGear_init echo_gear 5 20 20 45 15 (1 / 4) 0 0 16 = Inr g \<and>
        BevelGear.pitch_radius g = 50 \<and> BevelGear.tooth_width g = pi * 5 \<and>
        scale (hd (sections g)) = 1) \<and>
   (\<exists>g. InvoluteGear_init echo_gear 5 20 20 (1 / 4) 0 0 = Inr g \<and>
        InvoluteGear.tooth_width g = pi * 5 \<and>
        generate echo_gear 20 (pi * 5) (deg2rad echo_gear 20) 0 32
          = Some (gear_poly g, InvoluteGear.pitch_radius g) \<and>
        InvoluteGear.pitch_radius g = 50)"
proof -
  note t = pitch_radius_and_tooth_width[of echo_gear 5 20 20 45 15 "1 / 4" 0 0 16]
  have "\<exists>g. BevelGear_init echo_gear 5 20 20 45 15 (1 / 4) 0 0 16 = Inr g"
    by (rule echo_gear_init_total) (use sin_radians_pos[of 45] in simp_all)
  then obtain g where g: "BevelGear_init echo_gear 5 20 20 45 15 (1 / 4) 0 0 16 = Inr g" ..
  with t have 1: "BevelGear.pitch_radius g = 50 \<and> BevelGear.tooth_width g = pi * 5 \<and>
                  scale (hd (sections g)) = 1"
    by simp
  obtain g' where g': "InvoluteGear_init echo_gear 5 20 20 (1 / 4) 0 0 = Inr g'"
    by (simp add: InvoluteGear_init_def echo_gear_def Let_def)
  have e: "\<forall>teeth_count tw a b f ring pr.
          generate echo_gear teeth_count tw a b f = Some (ring, pr) \<longrightarrow>
            pr = tw / pi * real_of_int teeth_count / 2"
    by (auto simp: echo_gear_def)
  from t g' e have 2: "InvoluteGear.tooth_width g' = pi * 5 \<and>
        generate echo_gear 20 (pi * 5) (deg2rad echo_gear 20) 0 32
          = Some (gear_poly g', InvoluteGear.pitch_radius g') \<and>
        InvoluteGear.pitch_radius g' = 50"
    by simp
  from g 1 g' 2 show ?thesis by blast
qed

theorem tooth_width_passed_counterexample:
  "map_sum id profiles (BevelGear_init echo_gear 5 20 20 90 15 (1 / 4) 0 0 16)
     = Inr [[(pi * 5, 0)], [(pi * 29 / 6, 0)], [(pi * 14 / 3, 0)], [(pi * 9 / 2, 0)],
            [(pi * 13 / 3, 0)], [(pi * 25 / 6, 0)], [(pi * 4, 0)], [(pi * 23 / 6, 0)],
            [(pi * 11 / 3, 0)], [(pi * 7 / 2, 0)]] \<and>
   pi * 29 / 6 \<noteq> pi * 5"
  by (simp add: run_defs sin_90_deg profiles_def)

section \<open>Claims about the placement of the second gear\<close>














end
